theory Spec2Isabelle
  imports Main "HOL-Library.Word" "HOL-Library.AList"
begin

unbundle bit_operations_syntax

section \<open>JavaScript values\<close>

text \<open>
  Request bodies, token payloads and stored documents are JSON values. A JavaScript
  \<open>undefined\<close> is \<open>None\<close> of \<open>json option\<close>. Numbers are integers here (amounts,
  quantities). Strings are byte strings, so \<open>length\<close> is what \<open>Buffer.from\<close> counts.
  An object is an association list; a field's value is its first binding.
\<close>

datatype json =
    JNull
  | JBool bool
  | JNum int
  | JStr string
  | JArr "json list"
  | JObj "(string \<times> json) list"

type_synonym doc = "(string \<times> json) list"

text \<open>What a handler's promise can end in: a thrown value.\<close>

datatype exn = TypeError | RangeError | StoreError | ValidationError | CastError

text \<open>\<open>!x\<close> is \<open>\<not> truthy x\<close>: undefined, null, false, 0 and the empty string are falsy.\<close>

fun truthy :: "json option \<Rightarrow> bool" where
  "truthy None = False"
| "truthy (Some JNull) = False"
| "truthy (Some (JBool b)) = b"
| "truthy (Some (JNum n)) = (n \<noteq> 0)"
| "truthy (Some (JStr s)) = (s \<noteq> [])"
| "truthy (Some (JArr xs)) = True"
| "truthy (Some (JObj kvs)) = True"

text \<open>\<open>!s\<close> for \<open>s: string | undefined\<close> (a header, an environment variable).\<close>

fun truthy_str :: "string option \<Rightarrow> bool" where
  "truthy_str None = False"
| "truthy_str (Some s) = (s \<noteq> [])"

text \<open>\<open>v.k\<close> for a value that is neither undefined nor null.\<close>

fun field :: "json \<Rightarrow> string \<Rightarrow> json option" where
  "field (JObj kvs) k = map_of kvs k"
| "field v k = None"

text \<open>\<open>x.k\<close>: a TypeError when \<open>x\<close> is undefined or null.\<close>

fun access :: "json option \<Rightarrow> string \<Rightarrow> exn + json option" where
  "access None k = Inl TypeError"
| "access (Some JNull) k = Inl TypeError"
| "access (Some v) k = Inr (field v k)"

text \<open>\<open>x || {}\<close>\<close>

definition or_empty :: "json option \<Rightarrow> json" where
  "or_empty x = (case x of Some v \<Rightarrow> (if truthy x then v else JObj []) | None \<Rightarrow> JObj [])"

text \<open>\<open>list.includes(x)\<close> for a list of string literals.\<close>

fun js_includes :: "string list \<Rightarrow> json option \<Rightarrow> bool" where
  "js_includes xs (Some (JStr s)) = (s \<in> set xs)"
| "js_includes xs v = False"

text \<open>An object literal as \<open>res.json\<close> sends it: a field that is undefined is left out.\<close>

fun present :: "(string \<times> json option) list \<Rightarrow> doc" where
  "present [] = []"
| "present ((k, None) # fs) = present fs"
| "present ((k, Some v) # fs) = (k, v) # present fs"

definition obj :: "(string \<times> json option) list \<Rightarrow> json" where
  "obj fs = JObj (present fs)"


text \<open>\<open>String(v)\<close>, as a template literal converts a value.\<close>

fun digits :: "nat \<Rightarrow> string" where
  "digits n = (if n < 10 then [''0123456789'' ! n] else digits (n div 10) @ [''0123456789'' ! (n mod 10)])"

declare digits.simps [simp del]

fun join_comma :: "string list \<Rightarrow> string" where
  "join_comma [] = []"
| "join_comma [s] = s"
| "join_comma (s # t) = s @ '','' @ join_comma t"

fun toStr :: "json \<Rightarrow> string" where
  "toStr JNull = ''null''"
| "toStr (JBool b) = (if b then ''true'' else ''false'')"
| "toStr (JNum n) = (if n < 0 then ''-'' @ digits (nat (- n)) else digits (nat n))"
| "toStr (JStr s) = s"
| "toStr (JArr xs) = join_comma (map (\<lambda>x. if x = JNull then [] else toStr x) xs)"
| "toStr (JObj kvs) = ''[object Object]''"

text \<open>\<open>s.toLowerCase()\<close>, on ASCII letters.\<close>

definition toLowerCase :: "string \<Rightarrow> string" where
  "toLowerCase w =
     map (\<lambda>c. if 65 \<le> (of_char c :: nat) \<and> (of_char c :: nat) \<le> 90
               then char_of ((of_char c :: nat) + 32) else c) w"

section \<open>Responses\<close>

text \<open>
  A handler ends by sending a JSON response with a status code, or its promise is
  rejected with the thrown value (no response is sent by the handler then).
\<close>

datatype outcome = Responded nat json | Rejected exn

fun status_of :: "outcome \<Rightarrow> nat option" where
  "status_of (Responded c b) = Some c"
| "status_of (Rejected e) = None"

section \<open>Requests\<close>

record request =
  authorization :: "string option"
  x_signature :: "string option"
  user_agent :: "string option"
  http_method :: string
  originalUrl :: string
  ip :: "string option"
  params :: "(string \<times> string) list"
  query :: json
  body :: "json option"
  user :: "json option"

text \<open>\<open>req.params.k\<close>\<close>

definition param :: "request \<Rightarrow> string \<Rightarrow> json option" where
  "param req k = map_option JStr (map_of (params req) k)"

section \<open>The document store\<close>

text \<open>
  The collections, each a list of documents keyed by their \<open>_id\<close>. \<open>up\<close> is false
  when the store cannot be reached: every query throws then. Dates are ISO strings.
\<close>

record store =
  up :: bool
  orders :: "(json \<times> doc) list"
  users :: "(json \<times> doc) list"
  auditlogs :: "doc list"

text \<open>
  A query by id. The keys of a collection are ObjectIds, written as strings of 24
  lower-case hex digits. A document stored under the id as given is found; otherwise the
  id is cast to an ObjectId, whatever the case of its digits, and looked up; an id that
  cannot be cast (it is not 24 hex digits) makes the query throw a CastError.
  \<open>findById(undefined)\<close> finds nothing.
\<close>

definition is_hex_digit :: "char \<Rightarrow> bool" where
  "is_hex_digit c = (c \<in> set ''0123456789abcdefABCDEF'')"

fun is_ObjectId :: "json \<Rightarrow> bool" where
  "is_ObjectId (JStr w) = (length w = 24 \<and> list_all is_hex_digit w)"
| "is_ObjectId v = False"

fun canonical_id :: "json \<Rightarrow> json" where
  "canonical_id (JStr w) = JStr (toLowerCase w)"
| "canonical_id v = v"

definition find_by_id :: "(json \<times> doc) list \<Rightarrow> json option \<Rightarrow> exn + (json \<times> doc) option" where
  "find_by_id coll ident =
     (case ident of
        None \<Rightarrow> Inr None
      | Some i \<Rightarrow>
         (case map_of coll i of
            Some d \<Rightarrow> Inr (Some (i, d))
          | None \<Rightarrow>
             (if is_ObjectId i
              then Inr (map_option (Pair (canonical_id i)) (map_of coll (canonical_id i)))
              else Inl CastError)))"

text \<open>The paths \<open>OrderSchema\<close> of models/Order.ts declares (with its timestamps).\<close>

definition OrderSchema_paths :: "string list" where
  "OrderSchema_paths =
    [''userId'', ''items'', ''totals'', ''totals.subtotal'', ''totals.shipping'', ''totals.tax'',
     ''totals.total'', ''status'', ''address'', ''address.fullName'', ''address.phone'',
     ''address.country'', ''address.city'', ''address.street'', ''address.zip'',
     ''address.isDefault'', ''delivery'', ''delivery.coordinates'',
     ''delivery.coordinates.latitude'', ''delivery.coordinates.longitude'', ''delivery.address'',
     ''delivery.estimatedTime'', ''delivery.courierId'', ''delivery.courierName'',
     ''delivery.courierPhone'', ''delivery.instructions'', ''paymentStatus'', ''paymentMethod'',
     ''notes'', ''createdAt'', ''updatedAt'']"

text \<open>The status enum of \<open>OrderSchema\<close> (models/Order.ts, line 107).\<close>

definition OrderSchema_status_enum :: "string list" where
  "OrderSchema_status_enum =
    [''pending'', ''confirmed'', ''preparing'', ''ready_for_delivery'', ''in_transit'',
     ''delivered'', ''cancelled'']"

text \<open>A dotted path, split at the dots.\<close>

fun split_on :: "char \<Rightarrow> string \<Rightarrow> string list" where
  "split_on c [] = [[]]"
| "split_on c (x # xs) =
     (if x = c then [] # split_on c xs
      else (case split_on c xs of w # ws \<Rightarrow> (x # w) # ws | [] \<Rightarrow> [[x]]))"

text \<open>\<open>$set\<close> of one path: the last segment is written, the objects on the way are kept.\<close>

fun set_path :: "string list \<Rightarrow> json \<Rightarrow> doc \<Rightarrow> doc" where
  "set_path [] v d = d"
| "set_path [k] v d = AList.update k v d"
| "set_path (k # ks) v d =
     AList.update k
       (JObj (set_path ks v (case map_of d k of Some (JObj sub) \<Rightarrow> sub | _ \<Rightarrow> []))) d"

text \<open>
  An update object applied to a document. With \<open>strict\<close> (the schema option) a path the
  schema does not declare is dropped from the update; without it every path is written.
  No validator runs on an update (the handlers pass no \<open>runValidators\<close>).
\<close>

definition apply_update :: "bool \<Rightarrow> string list \<Rightarrow> (string \<times> json) list \<Rightarrow> doc \<Rightarrow> doc" where
  "apply_update strict paths upd d =
     fold (\<lambda>(k, v) acc. if strict \<and> k \<notin> set paths then acc else set_path (split_on CHR ''.'' k) v acc)
       upd d"

text \<open>
  \<open>Order.findByIdAndUpdate(id, update, {new})\<close>: null when no order has the id; else the
  order is updated and returned (as updated when \<open>new\<close>, as it was otherwise). The
  schema has \<open>timestamps: true\<close>, so every update also sets \<open>updatedAt\<close> to the time
  of the update, \<open>stamp\<close>.
\<close>

definition Order_findByIdAndUpdate ::
  "bool \<Rightarrow> bool \<Rightarrow> string \<Rightarrow> store \<Rightarrow> json option \<Rightarrow> (string \<times> json) list
     \<Rightarrow> exn + ((json \<times> doc) option \<times> store)" where
  "Order_findByIdAndUpdate strict new stamp s oid upd =
     (if \<not> up s then Inl StoreError
      else (case find_by_id (orders s) oid of
              Inl x \<Rightarrow> Inl x
            | Inr None \<Rightarrow> Inr (None, s)
            | Inr (Some (i, d)) \<Rightarrow>
                (let d' = AList.update ''updatedAt'' (JStr stamp)
                            (apply_update strict OrderSchema_paths upd d)
                 in Inr (Some (i, if new then d' else d),
                         s\<lparr>orders := AList.update i d' (orders s)\<rparr>))))"

text \<open>\<open>Order.findById(id).lean()\<close>\<close>

definition Order_findById :: "store \<Rightarrow> json option \<Rightarrow> exn + doc option" where
  "Order_findById s oid =
     (if \<not> up s then Inl StoreError
      else (case find_by_id (orders s) oid of
              Inl x \<Rightarrow> Inl x
            | Inr r \<Rightarrow> Inr (map_option snd r)))"

section \<open>Payments (routes/payments)\<close>

text \<open>
  What the handlers take from outside: the environment variables, HMAC-SHA256 (a 256-bit
  digest of a message under a key) and \<open>JSON.stringify\<close>.
\<close>

record env =
  CLIENT_URL :: "string option"
  PAYME_SECRET :: "string option"
  CLICK_SECRET :: "string option"
  JWT_SECRET :: "string option"

definition hexdigit :: "nat \<Rightarrow> char" where
  "hexdigit n = ''0123456789abcdef'' ! (n mod 16)"

definition hex_byte :: "8 word \<Rightarrow> string" where
  "hex_byte b = [hexdigit (unat b div 16), hexdigit (unat b mod 16)]"

text \<open>\<open>buffer.toString("hex")\<close> and \<open>digest("hex")\<close>\<close>

definition toString_hex :: "8 word list \<Rightarrow> string" where
  "toString_hex bs = concat (map hex_byte bs)"

text \<open>The \<open>n\<close> bytes of a word, most significant first.\<close>

definition word_bytes :: "nat \<Rightarrow> 'a::len word \<Rightarrow> 8 word list" where
  "word_bytes n w = map (\<lambda>i. ucast (drop_bit (8 * (n - 1 - i)) w)) [0..<n]"

text \<open>\<open>idempotencyKey(id?)\<close>; \<open>rnd\<close> is what \<open>crypto.randomBytes(8)\<close> draws.\<close>

definition idempotencyKey :: "string option \<Rightarrow> 64 word \<Rightarrow> string" where
  "idempotencyKey ident rnd =
     (case ident of
        Some s \<Rightarrow> (if s \<noteq> [] then s else toString_hex (word_bytes 8 rnd))
      | None \<Rightarrow> toString_hex (word_bytes 8 rnd))"

text \<open>\<open>${x}\<close> in a template literal\<close>

fun interpolate :: "json option \<Rightarrow> string" where
  "interpolate None = ''undefined''"
| "interpolate (Some v) = toStr v"

definition redirectUrl :: "env \<Rightarrow> json option \<Rightarrow> string \<Rightarrow> string" where
  "redirectUrl e orderId intentId =
     (case CLIENT_URL e of
        Some u \<Rightarrow> (if u \<noteq> [] then u else ''http://localhost:5173'')
      | None \<Rightarrow> ''http://localhost:5173'')
     @ ''/payment/success?orderId='' @ interpolate orderId @ ''&intentId='' @ intentId"

definition createPayme ::
  "bool \<Rightarrow> env \<Rightarrow> 64 word \<Rightarrow> string \<Rightarrow> store \<Rightarrow> request \<Rightarrow> outcome \<times> store" where
  "createPayme strict e rnd stamp s req =
     (let b = or_empty (body req); orderId = field b ''orderId''; amount = field b ''amount'' in
      if \<not> truthy orderId \<or> \<not> truthy amount
      then (Responded 400 (JObj [(''message'', JStr ''orderId and amount required'')]), s)
      else
        (let intentId = idempotencyKey None rnd in
         case Order_findByIdAndUpdate strict False stamp s orderId
                [(''payment.method'', JStr ''payme''), (''payment.status'', JStr ''pending''),
                 (''payment.intentId'', JStr intentId)] of
           Inl x \<Rightarrow> (Rejected x, s)
         | Inr (r, s') \<Rightarrow>
             (Responded 200
                (JObj [(''intentId'', JStr intentId),
                       (''redirectUrl'', JStr (redirectUrl e orderId intentId))]), s')))"

definition createClick ::
  "bool \<Rightarrow> env \<Rightarrow> 64 word \<Rightarrow> string \<Rightarrow> store \<Rightarrow> request \<Rightarrow> outcome \<times> store" where
  "createClick strict e rnd stamp s req =
     (let b = or_empty (body req); orderId = field b ''orderId''; amount = field b ''amount'' in
      if \<not> truthy orderId \<or> \<not> truthy amount
      then (Responded 400 (JObj [(''message'', JStr ''orderId and amount required'')]), s)
      else
        (let intentId = idempotencyKey None rnd in
         case Order_findByIdAndUpdate strict False stamp s orderId
                [(''payment.method'', JStr ''click''), (''payment.status'', JStr ''pending''),
                 (''payment.intentId'', JStr intentId)] of
           Inl x \<Rightarrow> (Rejected x, s)
         | Inr (r, s') \<Rightarrow>
             (Responded 200
                (JObj [(''intentId'', JStr intentId),
                       (''redirectUrl'', JStr (redirectUrl e orderId intentId))]), s')))"

text \<open>
  \<open>crypto.timingSafeEqual(a, b)\<close> throws a RangeError when the two buffers differ in
  length, and compares them otherwise.
\<close>

definition timingSafeEqual :: "string \<Rightarrow> string \<Rightarrow> exn + bool" where
  "timingSafeEqual a b = (if length a \<noteq> length b then Inl RangeError else Inr (a = b))"

definition verifySignature ::
  "(string \<Rightarrow> string \<Rightarrow> 256 word) \<Rightarrow> string \<Rightarrow> string option \<Rightarrow> string option \<Rightarrow> exn + bool" where
  "verifySignature hmac_sha256 raw signature secret =
     (case (signature, secret) of
        (Some sg, Some sc) \<Rightarrow>
          (if sg = [] \<or> sc = [] then Inr False
           else timingSafeEqual (toString_hex (word_bytes 32 (hmac_sha256 sc raw))) sg)
      | _ \<Rightarrow> Inr False)"

definition paymeWebhook ::
  "(string \<Rightarrow> string \<Rightarrow> 256 word) \<Rightarrow> (json \<Rightarrow> string) \<Rightarrow> bool \<Rightarrow> env \<Rightarrow> string \<Rightarrow> string \<Rightarrow> store
     \<Rightarrow> request \<Rightarrow> outcome \<times> store" where
  "paymeWebhook hmac_sha256 stringify strict e now stamp s req =
     (let signature = x_signature req; raw = stringify (or_empty (body req)) in
      case verifySignature hmac_sha256 raw signature (PAYME_SECRET e) of
        Inl x \<Rightarrow> (Rejected x, s)
      | Inr False \<Rightarrow> (Responded 401 (JObj [(''message'', JStr ''invalid'')]), s)
      | Inr True \<Rightarrow>
         (let b = or_empty (body req); intentId = field b ''intentId''; orderId = field b ''orderId'' in
          if \<not> truthy intentId \<or> \<not> truthy orderId
          then (Responded 400 (JObj [(''message'', JStr ''invalid payload'')]), s)
          else
            (case Order_findByIdAndUpdate strict False stamp s orderId
                    [(''status'', JStr ''paid''), (''payment.status'', JStr ''paid''),
                     (''payment.paidAt'', JStr now)] of
               Inl x \<Rightarrow> (Rejected x, s)
             | Inr (r, s') \<Rightarrow> (Responded 200 (JObj [(''ok'', JBool True)]), s'))))"

definition clickWebhook ::
  "(string \<Rightarrow> string \<Rightarrow> 256 word) \<Rightarrow> (json \<Rightarrow> string) \<Rightarrow> bool \<Rightarrow> env \<Rightarrow> string \<Rightarrow> string \<Rightarrow> store
     \<Rightarrow> request \<Rightarrow> outcome \<times> store" where
  "clickWebhook hmac_sha256 stringify strict e now stamp s req =
     (let signature = x_signature req; raw = stringify (or_empty (body req)) in
      case verifySignature hmac_sha256 raw signature (CLICK_SECRET e) of
        Inl x \<Rightarrow> (Rejected x, s)
      | Inr False \<Rightarrow> (Responded 401 (JObj [(''message'', JStr ''invalid'')]), s)
      | Inr True \<Rightarrow>
         (let b = or_empty (body req); intentId = field b ''intentId''; orderId = field b ''orderId'' in
          if \<not> truthy intentId \<or> \<not> truthy orderId
          then (Responded 400 (JObj [(''message'', JStr ''invalid payload'')]), s)
          else
            (case Order_findByIdAndUpdate strict False stamp s orderId
                    [(''status'', JStr ''paid''), (''payment.status'', JStr ''paid''),
                     (''payment.paidAt'', JStr now)] of
               Inl x \<Rightarrow> (Rejected x, s)
             | Inr (r, s') \<Rightarrow> (Responded 200 (JObj [(''ok'', JBool True)]), s'))))"


text \<open>
  The same delivery made again and again (at-least-once delivery), each at its own
  time (the handler's \<open>new Date()\<close> and the time of the update): the responses in order,
  and the store at the end.
\<close>

fun redeliver ::
  "(string \<Rightarrow> string \<Rightarrow> 256 word) \<Rightarrow> (json \<Rightarrow> string) \<Rightarrow> bool \<Rightarrow> env \<Rightarrow> (string \<times> string) list \<Rightarrow> store
     \<Rightarrow> request \<Rightarrow> outcome list \<times> store" where
  "redeliver hmac_sha256 stringify strict e [] s req = ([], s)"
| "redeliver hmac_sha256 stringify strict e ((now, stamp) # later) s req =
     (case paymeWebhook hmac_sha256 stringify strict e now stamp s req of
        (r, s') \<Rightarrow>
          (case redeliver hmac_sha256 stringify strict e later s' req of
             (rs, s'') \<Rightarrow> (r # rs, s'')))"

section \<open>Orders (routes/orders)\<close>

definition server_error :: json where
  "server_error = JObj [(''message'', JStr ''Server error'')]"

text \<open>A document's \<open>id\<close>: its \<open>_id\<close> as a string.\<close>

definition id_of :: "json \<Rightarrow> json" where
  "id_of i = JStr (toStr i)"

text \<open>
  The \<open>toJSON\<close> transform of \<open>OrderSchema\<close>: \<open>id\<close> is set from \<open>_id\<close>, \<open>_id\<close> and
  \<open>__v\<close> are deleted, \<open>date\<close> is the day of \<open>createdAt\<close>. Reading the day of a
  \<open>createdAt\<close> that is no date throws.
\<close>

definition Order_toJSON :: "json \<Rightarrow> doc \<Rightarrow> exn + json" where
  "Order_toJSON i d =
     (case map_of d ''createdAt'' of
        Some (JStr day) \<Rightarrow>
          Inr (JObj (AList.update ''date'' (JStr (takeWhile (\<lambda>c. c \<noteq> CHR ''T'') day))
                 (AList.delete ''__v'' (AList.delete ''_id'' (AList.update ''id'' (id_of i) d)))))
      | _ \<Rightarrow> Inl TypeError)"

text \<open>
  \<open>Order.create(doc)\<close> under \<open>OrderSchema\<close>. The document is validated first: it
  throws a ValidationError when a path the schema declares \<open>required: true\<close>
  (\<open>userId\<close>, \<open>totals\<close>, \<open>address\<close>, \<open>delivery\<close>) is missing or null, and when
  \<open>accepts\<close>, the rest of the validation (the casts, the sub-schemas, \<open>min\<close>, the
  enums, the items), refuses it. Otherwise the defaults of \<open>status\<close> and
  \<open>paymentStatus\<close> and the timestamps are filled in, and the document is stored under
  the new id.
\<close>

definition required_path :: "doc \<Rightarrow> string \<Rightarrow> bool" where
  "required_path d k = (case map_of d k of None \<Rightarrow> False | Some JNull \<Rightarrow> False | Some v \<Rightarrow> True)"

definition OrderSchema_required :: "string list" where
  "OrderSchema_required = [''userId'', ''totals'', ''address'', ''delivery'']"

definition Order_create ::
  "(doc \<Rightarrow> bool) \<Rightarrow> json \<Rightarrow> string \<Rightarrow> store \<Rightarrow> doc \<Rightarrow> exn + (json \<times> doc \<times> store)" where
  "Order_create accepts new_id now s d =
     (if \<not> list_all (required_path d) OrderSchema_required \<or> \<not> accepts d then Inl ValidationError
      else if \<not> up s then Inl StoreError
      else
        (let d' = d
                  @ (if map_of d ''status'' = None then [(''status'', JStr ''pending'')] else [])
                  @ (if map_of d ''paymentStatus'' = None then [(''paymentStatus'', JStr ''pending'')]
                     else [])
                  @ [(''createdAt'', JStr now), (''updatedAt'', JStr now)]
         in Inr (new_id, d', s\<lparr>orders := orders s @ [(new_id, d')]\<rparr>)))"

text \<open>
  \<open>createOrder\<close>, with the \<open>create\<close> it calls as a parameter (\<open>Order_create\<close> above
  is the model's; the route test mocks it).
\<close>

definition createOrder ::
  "(store \<Rightarrow> doc \<Rightarrow> exn + (json \<times> doc \<times> store)) \<Rightarrow> store \<Rightarrow> request \<Rightarrow> outcome \<times> store" where
  "createOrder create s req =
     (case access (user req) ''id'' of
        Inl x \<Rightarrow> (Responded 500 server_error, s)
      | Inr userId \<Rightarrow>
         (let b = or_empty (body req); items = field b ''items''; totals = field b ''totals'';
              address = field b ''address'' in
          if \<not> truthy items \<or> \<not> truthy totals \<or> \<not> truthy address
          then (Responded 400 (JObj [(''message'', JStr ''items, totals, address required'')]), s)
          else
            (case create s
                    (present [(''userId'', userId), (''items'', items), (''totals'', totals),
                             (''address'', address)]) of
               Inl x \<Rightarrow> (Responded 500 server_error, s)
             | Inr (i, d, s') \<Rightarrow>
                 (case Order_toJSON i d of
                    Inl x \<Rightarrow> (Responded 500 server_error, s')
                  | Inr j \<Rightarrow> (Responded 201 j, s')))))"

definition okStatuses :: "string list" where
  "okStatuses = [''pending'', ''processing'', ''in_transit'', ''delivered'', ''cancelled'']"

definition updateOrderStatus :: "bool \<Rightarrow> string \<Rightarrow> store \<Rightarrow> request \<Rightarrow> outcome \<times> store" where
  "updateOrderStatus strict stamp s req =
     (let orderId = param req ''orderId''; status = field (or_empty (body req)) ''status'' in
      if \<not> js_includes okStatuses status
      then (Responded 400 (JObj [(''message'', JStr ''Invalid status'')]), s)
      else
        (case Order_findByIdAndUpdate strict True stamp s orderId (present [(''status'', status)]) of
           Inl x \<Rightarrow> (Responded 500 server_error, s)
         | Inr (None, s') \<Rightarrow> (Responded 404 (JObj [(''message'', JStr ''Order not found'')]), s')
         | Inr (Some (i, order), s') \<Rightarrow>
             (case Order_toJSON i order of
                Inl x \<Rightarrow> (Responded 500 server_error, s')
              | Inr j \<Rightarrow> (Responded 200 j, s'))))"

section \<open>Delivery tracking (routes/delivery)\<close>

definition apostrophe :: string where
  "apostrophe = [CHR 0x27]"

definition stage_entry :: "string \<Rightarrow> string \<Rightarrow> string \<Rightarrow> json" where
  "stage_entry st title description =
     JObj [(''status'', JStr st), (''title'', JStr title), (''description'', JStr description),
           (''completed'', JBool True)]"

text \<open>The timeline \<open>trackOrder\<close> builds from the order, in the order it pushes the entries.\<close>

definition timeline :: "doc \<Rightarrow> exn + json list" where
  "timeline order =
     (let st = map_of order ''status'' in
      case (if js_includes [''in_transit'', ''delivered''] st
            then access (map_of order ''delivery'') ''courierName'' else Inr None) of
        Inl x \<Rightarrow> Inl x
      | Inr courierName \<Rightarrow>
          Inr ([obj [(''status'', Some (JStr ''pending'')),
                     (''title'', Some (JStr ''Buyurtma qabul qilindi'')),
                     (''description'', Some (JStr ''Sizning buyurtmangiz qabul qilingan'')),
                     (''timestamp'', map_of order ''createdAt''),
                     (''completed'', Some (JBool True))]]
               @ (if js_includes [''confirmed'', ''preparing'', ''ready_for_delivery'', ''in_transit'',
                                   ''delivered''] st
                  then [stage_entry ''confirmed'' ''Buyurtma tasdiqlandi''
                          ''Buyurtmangiz tasdiqlangan va tayyorlanmoqda'']
                  else [])
               @ (if js_includes [''preparing'', ''ready_for_delivery'', ''in_transit'', ''delivered''] st
                  then [stage_entry ''preparing'' ''Tayyorlanmoqda''
                          (''Mahsulotlar yig'' @ apostrophe @ ''ilib, qadoqlanmoqda'')]
                  else [])
               @ (if js_includes [''ready_for_delivery'', ''in_transit'', ''delivered''] st
                  then [stage_entry ''ready_for_delivery'' ''Yetkazish uchun tayyor''
                          ''Buyurtma kuryerga berilish uchun tayyor'']
                  else [])
               @ (if js_includes [''in_transit'', ''delivered''] st
                  then [stage_entry ''in_transit'' (''Yo'' @ apostrophe @ ''lda'')
                          (''Kuryer: '' @ (if truthy courierName then interpolate courierName
                                           else ''Noma'' @ apostrophe @ ''lum''))]
                  else [])
               @ (if st = Some (JStr ''delivered'')
                  then [stage_entry ''delivered'' ''Yetkazib berildi''
                          ''Buyurtma muvaffaqiyatli yetkazib berildi'']
                  else [])))"

definition trackOrder :: "store \<Rightarrow> request \<Rightarrow> outcome" where
  "trackOrder s req =
     (case Order_findById s (param req ''orderId'') of
        Inl x \<Rightarrow> Responded 500 server_error
      | Inr None \<Rightarrow> Responded 404 (JObj [(''message'', JStr ''Order not found'')])
      | Inr (Some order) \<Rightarrow>
         (case timeline order of
            Inl x \<Rightarrow> Responded 500 server_error
          | Inr entries \<Rightarrow>
             (case access (map_of order ''totals'') ''total'' of
                Inl x \<Rightarrow> Responded 500 server_error
              | Inr order_total \<Rightarrow>
                 (case map_of order ''delivery'' of
                    None \<Rightarrow> Responded 500 server_error
                  | Some JNull \<Rightarrow> Responded 500 server_error
                  | Some delivery \<Rightarrow>
                      Responded 200
                        (obj [(''order'',
                                Some (obj [(''id'', map_of order ''id''),
                                           (''status'', map_of order ''status''),
                                           (''total'', order_total),
                                           (''estimatedTime'', field delivery ''estimatedTime'')])),
                              (''timeline'', Some (JArr entries)),
                              (''courier'',
                                Some (if truthy (field delivery ''courierId'')
                                      then obj [(''name'', field delivery ''courierName''),
                                                (''phone'', field delivery ''courierPhone'')]
                                      else JNull))])))))"

text \<open>The statuses of a timeline's entries, in order.\<close>

definition entry_statuses :: "json list \<Rightarrow> json option list" where
  "entry_statuses es = map (\<lambda>e. field e ''status'') es"

definition all_completed :: "json list \<Rightarrow> bool" where
  "all_completed es = list_all (\<lambda>e. field e ''completed'' = Some (JBool True)) es"

text \<open>The delivery stages in their order.\<close>

definition stages :: "string list" where
  "stages = [''pending'', ''confirmed'', ''preparing'', ''ready_for_delivery'', ''in_transit'',
             ''delivered'']"

section \<open>Authentication (routes/auth, middleware/permissions)\<close>

text \<open>
  A middleware passes the request on (with what it attached) or answers itself.
  \<open>jwt_verify token secret\<close> is \<open>jwt.verify\<close>: the token's payload, or \<open>None\<close>
  when it throws (the token is not one signed with the secret).
\<close>

datatype passage = Pass request | Halt nat json

definition requireAuth :: "(string \<Rightarrow> string \<Rightarrow> json option) \<Rightarrow> env \<Rightarrow> request \<Rightarrow> passage" where
  "requireAuth jwt_verify e req =
     (let auth = (case authorization req of Some a \<Rightarrow> a | None \<Rightarrow> []);
          token = (if take 7 auth = ''Bearer '' then Some (drop 7 auth) else None) in
      case token of
        None \<Rightarrow> Halt 401 (JObj [(''message'', JStr ''Missing token'')])
      | Some tok \<Rightarrow>
         (if tok = [] then Halt 401 (JObj [(''message'', JStr ''Missing token'')])
          else
            (case jwt_verify tok
                    (case JWT_SECRET e of
                       Some k \<Rightarrow> (if k \<noteq> [] then k else ''dev_secret_change_me'')
                     | None \<Rightarrow> ''dev_secret_change_me'') of
               None \<Rightarrow> Halt 401 (JObj [(''message'', JStr ''Invalid token'')])
             | Some decoded \<Rightarrow> Pass (req\<lparr>user := Some decoded\<rparr>))))"


text \<open>\<open>xs[1]\<close>\<close>

fun second :: "'a list \<Rightarrow> 'a option" where
  "second (x # y # ys) = Some y"
| "second xs = None"

definition authenticateToken ::
  "(string \<Rightarrow> string \<Rightarrow> json option) \<Rightarrow> env \<Rightarrow> store \<Rightarrow> request \<Rightarrow> passage" where
  "authenticateToken jwt_verify e s req =
     (let token = (case authorization req of
                     None \<Rightarrow> None
                   | Some h \<Rightarrow> (if h = [] then Some [] else second (split_on CHR '' '' h))) in
      case token of
        None \<Rightarrow> Halt 401 (JObj [(''message'', JStr ''Access token required'')])
      | Some tok \<Rightarrow>
         (if tok = [] then Halt 401 (JObj [(''message'', JStr ''Access token required'')])
          else
            (case jwt_verify tok
                    (case JWT_SECRET e of
                       Some k \<Rightarrow> (if k \<noteq> [] then k else ''fallback-secret'')
                     | None \<Rightarrow> ''fallback-secret'') of
               None \<Rightarrow> Halt 403 (JObj [(''message'', JStr ''Invalid token'')])
             | Some decoded \<Rightarrow>
                (case access (Some decoded) ''id'' of
                   Inl x \<Rightarrow> Halt 403 (JObj [(''message'', JStr ''Invalid token'')])
                 | Inr uid \<Rightarrow>
                    (if \<not> up s then Halt 403 (JObj [(''message'', JStr ''Invalid token'')])
                     else
                       (case find_by_id (users s) uid of
                          Inl x \<Rightarrow> Halt 403 (JObj [(''message'', JStr ''Invalid token'')])
                        | Inr None \<Rightarrow>
                            Halt 401 (JObj [(''message'', JStr ''Invalid or inactive user'')])
                        | Inr (Some (i, u)) \<Rightarrow>
                            (if \<not> truthy (map_of u ''isActive'')
                             then Halt 401 (JObj [(''message'', JStr ''Invalid or inactive user'')])
                             else Pass (req\<lparr>user :=
                                    Some (obj [(''id'', Some (id_of i)),
                                               (''role'', map_of u ''role''),
                                               (''name'', map_of u ''name''),
                                               (''phone'', map_of u ''phone'')])\<rparr>))))))))"

section \<open>Audit log (middleware/auditLogger, models/AuditLog)\<close>








section \<open>User administration (routes/admin)\<close>






section \<open>Example data\<close>

text \<open>The environment and the payloads of the repository's route tests.\<close>

definition test_env :: env where
  "test_env =
     \<lparr>CLIENT_URL = Some ''http://localhost:5173'', PAYME_SECRET = Some ''payme_secret'',
      CLICK_SECRET = Some ''click_secret'', JWT_SECRET = None\<rparr>"

definition blank_request :: request where
  "blank_request =
     \<lparr>authorization = None, x_signature = None, user_agent = None, http_method = ''POST'',
      originalUrl = [], ip = None, params = [], query = JObj [], body = None, user = None\<rparr>"

definition test_payload :: json where
  "test_payload = JObj [(''intentId'', JStr ''i1''), (''orderId'', JStr ''507f1f77bcf86cd799439011''), (''amount'', JNum 1000)]"

definition test_address :: json where
  "test_address =
     JObj [(''fullName'', JStr ''John''), (''phone'', JStr ''123''), (''country'', JStr ''UZ''),
           (''city'', JStr ''Tashkent''), (''street'', JStr ''Main''), (''zip'', JStr ''100000'')]"

definition test_items :: json where
  "test_items =
     JArr [JObj [(''productId'', JStr ''p1''), (''title'', JStr ''Tee''), (''slug'', JStr ''tee''),
                 (''price'', JNum 10), (''qty'', JNum 1), (''image'', JStr ''img'')]]"

definition test_totals :: json where
  "test_totals =
     JObj [(''subtotal'', JNum 10), (''shipping'', JNum 0), (''tax'', JNum 0), (''total'', JNum 10)]"

text \<open>A stored order as \<open>OrderSchema\<close> shapes it, not yet paid.\<close>

definition pending_order :: doc where
  "pending_order =
     [(''userId'', JStr ''64b0c0ffee0000000000a001''), (''items'', test_items), (''totals'', test_totals),
      (''status'', JStr ''pending''), (''address'', test_address),
      (''delivery'', JObj [(''address'', test_address)]),
      (''paymentStatus'', JStr ''pending''),
      (''createdAt'', JStr ''2025-01-01T09:30:00.000Z''),
      (''updatedAt'', JStr ''2025-01-01T09:30:00.000Z'')]"

definition test_store :: store where
  "test_store = \<lparr>up = True, orders = [(JStr ''507f1f77bcf86cd799439011'', pending_order)], users = [], auditlogs = []\<rparr>"

text \<open>A \<open>jwt.verify\<close> that accepts one token, issued to the first user as admin.\<close>

definition test_verify :: "string \<Rightarrow> string \<Rightarrow> json option" where
  "test_verify tok secret =
     (if tok = ''t1'' then Some (JObj [(''id'', JStr ''64b0c0ffee0000000000a001''), (''role'', JStr ''admin'')]) else None)"

text \<open>Users as the test-user script creates them; the first has been deactivated since.\<close>

definition test_users :: "(json \<times> doc) list" where
  "test_users =
     [(JStr ''64b0c0ffee0000000000a001'', [(''name'', JStr ''System Admin''), (''phone'', JStr ''+998901234567''),
                     (''role'', JStr ''admin''), (''isActive'', JBool False)]),
      (JStr ''64b0c0ffee0000000000a002'', [(''name'', JStr ''Content Moderator''), (''phone'', JStr ''+998901234568''),
                     (''role'', JStr ''moderator''), (''isActive'', JBool True)]),
      (JStr ''64b0c0ffee0000000000a003'', [(''name'', JStr ''Test User''), (''phone'', JStr ''+998901234569''),
                     (''role'', JStr ''user''), (''isActive'', JBool True)])]"

definition users_store :: store where
  "users_store = \<lparr>up = True, orders = [], users = test_users, auditlogs = []\<rparr>"

text \<open>An order on its way with a courier, and a store that holds it.\<close>

definition transit_order :: doc where
  "transit_order =
     [(''userId'', JStr ''64b0c0ffee0000000000a003''), (''items'', test_items), (''totals'', test_totals),
      (''status'', JStr ''in_transit''), (''address'', test_address),
      (''delivery'', JObj [(''address'', test_address), (''estimatedTime'', JNum 45),
                           (''courierId'', JStr ''c1''), (''courierName'', JStr ''Ali''),
                           (''courierPhone'', JStr ''+998900000001'')]),
      (''paymentStatus'', JStr ''pending''),
      (''createdAt'', JStr ''2025-01-02T08:00:00.000Z''),
      (''updatedAt'', JStr ''2025-01-02T11:00:00.000Z'')]"

definition delivery_store :: store where
  "delivery_store =
     \<lparr>up = True, orders = [(JStr ''507f1f77bcf86cd799439011'', pending_order), (JStr ''507f1f77bcf86cd799439012'', transit_order)],
      users = [], auditlogs = []\<rparr>"

text \<open>Scenario A of the specification: a signed-in user posts one item, totals and an address.\<close>

definition scenario_A :: request where
  "scenario_A =
     \<lparr>authorization = Some ''Bearer t3'', x_signature = None, user_agent = Some ''jest'',
      http_method = ''POST'', originalUrl = ''/api/orders'', ip = Some ''127.0.0.1'',
      params = [], query = JObj [],
      body = Some (JObj [(''items'', test_items), (''totals'', test_totals),
                         (''address'', test_address)]),
      user = Some (JObj [(''id'', JStr ''64b0c0ffee0000000000a003''), (''role'', JStr ''user'')])\<rparr>"


section \<open>Signatures\<close>

lemma length_toString_hex: "length (toString_hex bs) = 2 * length bs"
  by (induction bs) (simp_all add: toString_hex_def hex_byte_def)

lemma length_word_bytes: "length (word_bytes n w) = n"
  by (simp add: word_bytes_def)

lemma length_digest_hex: "length (toString_hex (word_bytes 32 w)) = 64"
  by (simp add: length_toString_hex length_word_bytes)

lemma digest_hex_nonempty: "toString_hex (word_bytes 32 w) \<noteq> []"
  using length_digest_hex [of w] by auto

lemma verifySignature_valid:
  "sc \<noteq> [] \<Longrightarrow>
   verifySignature h raw (Some (toString_hex (word_bytes 32 (h sc raw)))) (Some sc) = Inr True"
  by (simp add: verifySignature_def timingSafeEqual_def digest_hex_nonempty)

lemma verifySignature_absent:
  "verifySignature h raw None secret = Inr False"
  "verifySignature h raw signature None = Inr False"
  "verifySignature h raw (Some []) secret = Inr False"
  "verifySignature h raw signature (Some []) = Inr False"
  by (auto simp: verifySignature_def split: option.splits)

lemma verifySignature_same_length:
  "length sg = 64 \<Longrightarrow> sc \<noteq> [] \<Longrightarrow> sg \<noteq> toString_hex (word_bytes 32 (h sc raw)) \<Longrightarrow>
   verifySignature h raw (Some sg) (Some sc) = Inr False"
  by (auto simp: verifySignature_def timingSafeEqual_def length_digest_hex)

lemma verifySignature_other_length:
  "sg \<noteq> [] \<Longrightarrow> length sg \<noteq> 64 \<Longrightarrow> sc \<noteq> [] \<Longrightarrow>
   verifySignature h raw (Some sg) (Some sc) = Inl RangeError"
  by (auto simp: verifySignature_def timingSafeEqual_def length_digest_hex)

section \<open>What the payment handlers write\<close>

lemma webhook_update_status:
  "map_of (apply_update strict OrderSchema_paths
      [(''status'', a), (''payment.status'', b), (''payment.paidAt'', c)] d) ''status'' = Some a"
  by (cases strict) (simp_all add: apply_update_def OrderSchema_paths_def update_conv')

lemma webhook_update_other:
  "k \<noteq> ''status'' \<Longrightarrow> k \<noteq> ''payment'' \<Longrightarrow>
   map_of (apply_update strict OrderSchema_paths
      [(''status'', a), (''payment.status'', b), (''payment.paidAt'', c)] d) k = map_of d k"
  by (cases strict) (simp_all add: apply_update_def OrderSchema_paths_def update_conv')

lemma create_update_other:
  "k \<noteq> ''payment'' \<Longrightarrow>
   map_of (apply_update strict OrderSchema_paths
      [(''payment.method'', a), (''payment.status'', b), (''payment.intentId'', c)] d) k = map_of d k"
  by (cases strict) (simp_all add: apply_update_def OrderSchema_paths_def update_conv')

lemma find_by_id_stored:
  "map_of coll i = Some d \<Longrightarrow> find_by_id coll (Some i) = Inr (Some (i, d))"
  by (simp add: find_by_id_def)

lemma find_by_id_castable:
  "is_ObjectId i \<Longrightarrow> \<exists>r. find_by_id coll (Some i) = Inr r"
  by (simp add: find_by_id_def split: option.splits)

lemma paymeWebhook_settles:
  assumes "verifySignature h (stringify (or_empty (body req))) (x_signature req) (PAYME_SECRET e) = Inr True"
    and "truthy (field (or_empty (body req)) ''intentId'')"
    and "field (or_empty (body req)) ''orderId'' = Some i" and "truthy (Some i)"
    and "up s" and "map_of (orders s) i = Some d"
  shows "paymeWebhook h stringify strict e now stamp s req =
     (Responded 200 (JObj [(''ok'', JBool True)]),
      s\<lparr>orders := AList.update i
          (AList.update ''updatedAt'' (JStr stamp)
            (apply_update strict OrderSchema_paths
               [(''status'', JStr ''paid''), (''payment.status'', JStr ''paid''),
                (''payment.paidAt'', JStr now)] d)) (orders s)\<rparr>)"
  using assms
  by (simp add: paymeWebhook_def Order_findByIdAndUpdate_def Let_def find_by_id_stored)

text \<open>
  No payment handler ever writes a path of the schema other than \<open>status\<close> and the
  \<open>updatedAt\<close> of the timestamps: every other top-level field of every order,
  \<open>paymentStatus\<close>, \<open>paymentMethod\<close> and \<open>paymentIntentId\<close> among them, is after
  the call what it was before.
\<close>

lemma map_of_update_store:
  "map_of (AList.update i d' xs) j = (if j = i then Some d' else map_of xs j)"
  by (simp add: update_conv')

lemma paymeWebhook_keeps_paymentStatus:
  "map_option (\<lambda>d. map_of d ''paymentStatus'')
      (map_of (orders (snd (paymeWebhook h stringify strict e now stamp s req))) j)
   = map_option (\<lambda>d. map_of d ''paymentStatus'') (map_of (orders s) j)"
  by (auto simp: paymeWebhook_def Order_findByIdAndUpdate_def Let_def map_of_update_store
      webhook_update_other update_conv' find_by_id_def
      split: sum.splits bool.splits option.splits if_splits)

lemma clickWebhook_keeps_paymentStatus:
  "map_option (\<lambda>d. map_of d ''paymentStatus'')
      (map_of (orders (snd (clickWebhook h stringify strict e now stamp s req))) j)
   = map_option (\<lambda>d. map_of d ''paymentStatus'') (map_of (orders s) j)"
  by (auto simp: clickWebhook_def Order_findByIdAndUpdate_def Let_def map_of_update_store
      webhook_update_other update_conv' find_by_id_def
      split: sum.splits bool.splits option.splits if_splits)

lemma createPayme_keeps_schema_fields:
  assumes "k \<noteq> ''payment''" and "k \<noteq> ''updatedAt''"
  shows "map_option (\<lambda>d. map_of d k)
      (map_of (orders (snd (createPayme strict e rnd stamp s req))) j)
   = map_option (\<lambda>d. map_of d k) (map_of (orders s) j)"
  using assms
  by (auto simp: createPayme_def Order_findByIdAndUpdate_def Let_def map_of_update_store
      create_update_other update_conv' find_by_id_def split: sum.splits option.splits if_splits)

lemma createClick_keeps_schema_fields:
  assumes "k \<noteq> ''payment''" and "k \<noteq> ''updatedAt''"
  shows "map_option (\<lambda>d. map_of d k)
      (map_of (orders (snd (createClick strict e rnd stamp s req))) j)
   = map_option (\<lambda>d. map_of d k) (map_of (orders s) j)"
  using assms
  by (auto simp: createClick_def Order_findByIdAndUpdate_def Let_def map_of_update_store
      create_update_other update_conv' find_by_id_def split: sum.splits option.splits if_splits)

text \<open>
  Redelivery: with the store up, every delivery of a verified payload with an
  \<open>intentId\<close> and an \<open>orderId\<close> that is an ObjectId is answered 200 \<open>{ok: true}\<close>,
  however often it is made.
\<close>

lemma paymeWebhook_ok:
  assumes "verifySignature h (stringify (or_empty (body req))) (x_signature req) (PAYME_SECRET e) = Inr True"
    and "truthy (field (or_empty (body req)) ''intentId'')"
    and "field (or_empty (body req)) ''orderId'' = Some i" and "is_ObjectId i"
    and "up s"
  shows "fst (paymeWebhook h stringify strict e now stamp s req) = Responded 200 (JObj [(''ok'', JBool True)])"
    and "up (snd (paymeWebhook h stringify strict e now stamp s req))"
proof -
  have t: "truthy (Some i)"
    using assms(4) by (cases i) auto
  obtain r where r: "find_by_id (orders s) (Some i) = Inr r"
    using find_by_id_castable [OF assms(4)] by blast
  show "fst (paymeWebhook h stringify strict e now stamp s req) = Responded 200 (JObj [(''ok'', JBool True)])"
    using assms(1,2,3,5) t r
    by (cases r) (auto simp: paymeWebhook_def Order_findByIdAndUpdate_def Let_def)
  show "up (snd (paymeWebhook h stringify strict e now stamp s req))"
    using assms(1,2,3,5) t r
    by (cases r) (auto simp: paymeWebhook_def Order_findByIdAndUpdate_def Let_def)
qed

lemma redeliver_all_ok:
  assumes "verifySignature h (stringify (or_empty (body req))) (x_signature req) (PAYME_SECRET e) = Inr True"
    and "truthy (field (or_empty (body req)) ''intentId'')"
    and "field (or_empty (body req)) ''orderId'' = Some i" and "is_ObjectId i"
    and "up s"
  shows "fst (redeliver h stringify strict e nows s req)
           = replicate (length nows) (Responded 200 (JObj [(''ok'', JBool True)]))"
  using assms(5)
proof (induction nows arbitrary: s)
  case Nil
  then show ?case by simp
next
  case (Cons at later)
  obtain now stamp where at: "at = (now, stamp)"
    by (cases at)
  have 1: "fst (paymeWebhook h stringify strict e now stamp s req) = Responded 200 (JObj [(''ok'', JBool True)])"
    and 2: "up (snd (paymeWebhook h stringify strict e now stamp s req))"
    using paymeWebhook_ok [where stringify = stringify, OF assms(1,2,3,4) Cons.prems] by blast+
  show ?case
    using 1 Cons.IH [OF 2]
    by (auto simp: at split: prod.splits)
qed

text \<open>
  C2. A webhook with a valid signature and the test's payload, delivered for a stored
  order that is not yet paid: the handler answers 200 \<open>{ok: true}\<close> and sets the order's
  \<open>status\<close> to \<open>paid\<close>, but the order's \<open>paymentStatus\<close> is still \<open>pending\<close>
  afterwards: the update writes the paths \<open>payment.status\<close> and \<open>payment.paidAt\<close>,
  which are not the schema's \<open>paymentStatus\<close>. This holds whatever HMAC and
  serialisation are used, with and without the schema's strict mode.
\<close>

theorem paymeWebhook_leaves_paymentStatus:
  "(let r = paymeWebhook h stringify strict test_env now stamp test_store
              (blank_request\<lparr>x_signature :=
                   Some (toString_hex (word_bytes 32 (h ''payme_secret'' (stringify test_payload)))),
                 body := Some test_payload\<rparr>)
    in fst r = Responded 200 (JObj [(''ok'', JBool True)]) \<and>
       map_option (\<lambda>d. (map_of d ''status'', map_of d ''paymentStatus''))
          (map_of (orders (snd r)) (JStr ''507f1f77bcf86cd799439011''))
        = Some (Some (JStr ''paid''), Some (JStr ''pending'')))"
proof -
  let ?req = "blank_request\<lparr>x_signature :=
                   Some (toString_hex (word_bytes 32 (h ''payme_secret'' (stringify test_payload)))),
                 body := Some test_payload\<rparr>"
  have b: "or_empty (body ?req) = test_payload"
    by (simp add: or_empty_def test_payload_def)
  have v: "verifySignature h (stringify (or_empty (body ?req))) (x_signature ?req)
             (PAYME_SECRET test_env) = Inr True"
    unfolding b by (simp add: test_env_def verifySignature_valid)
  have "paymeWebhook h stringify strict test_env now stamp test_store ?req =
     (Responded 200 (JObj [(''ok'', JBool True)]),
      test_store\<lparr>orders := AList.update (JStr ''507f1f77bcf86cd799439011'')
          (AList.update ''updatedAt'' (JStr stamp)
            (apply_update strict OrderSchema_paths
               [(''status'', JStr ''paid''), (''payment.status'', JStr ''paid''),
                (''payment.paidAt'', JStr now)] pending_order)) (orders test_store)\<rparr>)"
    using v
    by (intro paymeWebhook_settles [where h = h and stringify = stringify and d = pending_order])
       (simp_all add: or_empty_def test_payload_def test_store_def)
  then show ?thesis
    by (simp add: Let_def test_store_def webhook_update_status webhook_update_other
        pending_order_def update_conv')
qed

theorem paymeWebhook_leaves_paymentStatus_witness:
  "(let r = paymeWebhook (\<lambda>key msg. 0) (\<lambda>v. []) True test_env ''2025-01-01T10:00:00.000Z'' ''2025-01-01T10:00:00.005Z'' test_store
              (blank_request\<lparr>x_signature := Some (replicate 64 CHR ''0''),
                 body := Some test_payload\<rparr>)
    in fst r = Responded 200 (JObj [(''ok'', JBool True)]) \<and>
       map_option (\<lambda>d. (map_of d ''status'', map_of d ''paymentStatus''))
          (map_of (orders (snd r)) (JStr ''507f1f77bcf86cd799439011''))
        = Some (Some (JStr ''paid''), Some (JStr ''pending'')))"
proof -
  have "toString_hex (word_bytes 32 (0 :: 256 word)) = replicate 64 CHR ''0''"
    by code_simp
  then show ?thesis
    using paymeWebhook_leaves_paymentStatus
      [of "\<lambda>key msg. 0" "\<lambda>v. []" True "''2025-01-01T10:00:00.000Z''"
          "''2025-01-01T10:00:00.005Z''"]
    by simp
qed

lemma paymeWebhook_unverified:
  assumes "verifySignature h (stringify (or_empty (body req))) (x_signature req) (PAYME_SECRET e) = Inr False"
  shows "paymeWebhook h stringify strict e now stamp s req = (Responded 401 (JObj [(''message'', JStr ''invalid'')]), s)"
  using assms by (simp add: paymeWebhook_def Let_def)

lemma clickWebhook_unverified:
  assumes "verifySignature h (stringify (or_empty (body req))) (x_signature req) (CLICK_SECRET e) = Inr False"
  shows "clickWebhook h stringify strict e now stamp s req = (Responded 401 (JObj [(''message'', JStr ''invalid'')]), s)"
  using assms by (simp add: clickWebhook_def Let_def)

lemma paymeWebhook_throws:
  assumes "verifySignature h (stringify (or_empty (body req))) (x_signature req) (PAYME_SECRET e) = Inl x"
  shows "paymeWebhook h stringify strict e now stamp s req = (Rejected x, s)"
  using assms by (simp add: paymeWebhook_def Let_def)

lemma paymeWebhook_unverified_store:
  assumes "verifySignature h (stringify (or_empty (body req))) (x_signature req) (PAYME_SECRET e) \<noteq> Inr True"
  shows "snd (paymeWebhook h stringify strict e now stamp s req) = s"
  using assms
  by (auto simp: paymeWebhook_def Let_def split: sum.splits bool.splits)

text \<open>
  C3. A delivery whose \<open>x-signature\<close> is not the digest is answered 401 only when the
  header is missing or empty, the secret is missing or empty, or the header has the
  digest's length (the lemmas above). A header of another length, here \<open>abc\<close>, makes
  \<open>timingSafeEqual\<close> throw: the handler's promise is rejected with a RangeError and no
  401 is sent. The store is unchanged.
\<close>

theorem paymeWebhook_short_signature_throws:
  "paymeWebhook h stringify strict test_env now stamp s
     (blank_request\<lparr>x_signature := Some ''abc'', body := Some test_payload\<rparr>) = (Rejected RangeError, s)"
  by (rule paymeWebhook_throws) (simp add: verifySignature_other_length test_env_def)

theorem paymeWebhook_short_signature_throws_witness:
  "paymeWebhook (\<lambda>key msg. 0) (\<lambda>v. []) True test_env ''2025-01-01T10:00:00.000Z'' ''2025-01-01T10:00:00.005Z'' test_store
     (blank_request\<lparr>x_signature := Some ''abc'', body := Some test_payload\<rparr>)
   = (Rejected RangeError, test_store)"
  by (rule paymeWebhook_short_signature_throws)

lemma createPayme_writes:
  assumes "field (or_empty (body req)) ''orderId'' = Some i" and "truthy (Some i)"
    and "truthy (field (or_empty (body req)) ''amount'')"
    and "up s" and "map_of (orders s) i = Some d"
  shows "createPayme strict e rnd stamp s req =
     (Responded 200
        (JObj [(''intentId'', JStr (toString_hex (word_bytes 8 rnd))),
               (''redirectUrl'', JStr (redirectUrl e (Some i) (toString_hex (word_bytes 8 rnd))))]),
      s\<lparr>orders := AList.update i
          (AList.update ''updatedAt'' (JStr stamp)
            (apply_update strict OrderSchema_paths
               [(''payment.method'', JStr ''payme''), (''payment.status'', JStr ''pending''),
                (''payment.intentId'', JStr (toString_hex (word_bytes 8 rnd)))] d)) (orders s)\<rparr>)"
  using assms
  by (simp add: createPayme_def Order_findByIdAndUpdate_def Let_def idempotencyKey_def
      find_by_id_stored)

lemma createPayme_missing:
  assumes "\<not> truthy (field (or_empty (body req)) ''orderId'') \<or> \<not> truthy (field (or_empty (body req)) ''amount'')"
  shows "createPayme strict e rnd stamp s req =
     (Responded 400 (JObj [(''message'', JStr ''orderId and amount required'')]), s)"
  using assms by (auto simp add: createPayme_def Let_def)

lemma length_intentId: "length (idempotencyKey None rnd) = 16"
  by (simp add: idempotencyKey_def length_toString_hex length_word_bytes)

text \<open>
  C6. A create call with \<open>orderId\<close> and \<open>amount\<close> for a stored order answers 200 with a
  fresh intent id, but what it writes are the paths \<open>payment.method\<close>,
  \<open>payment.status\<close> and \<open>payment.intentId\<close>: afterwards the order has no
  \<open>paymentMethod\<close> and no \<open>paymentIntentId\<close>, and its \<open>paymentStatus\<close> is what it
  was. This holds with and without the schema's strict mode, for every random draw.
\<close>

theorem createPayme_leaves_schema_fields:
  "(let r = createPayme strict test_env rnd stamp test_store
              (blank_request\<lparr>body := Some (JObj [(''orderId'', JStr ''507f1f77bcf86cd799439011''), (''amount'', JNum 1000)])\<rparr>)
    in status_of (fst r) = Some 200 \<and>
       map_option (\<lambda>d. (map_of d ''paymentMethod'', map_of d ''paymentStatus'', map_of d ''paymentIntentId''))
          (map_of (orders (snd r)) (JStr ''507f1f77bcf86cd799439011''))
        = Some (None, Some (JStr ''pending''), None))"
proof -
  let ?req = "blank_request\<lparr>body := Some (JObj [(''orderId'', JStr ''507f1f77bcf86cd799439011''), (''amount'', JNum 1000)])\<rparr>"
  have "createPayme strict test_env rnd stamp test_store ?req =
     (Responded 200
        (JObj [(''intentId'', JStr (toString_hex (word_bytes 8 rnd))),
               (''redirectUrl'', JStr (redirectUrl test_env (Some (JStr ''507f1f77bcf86cd799439011'')) (toString_hex (word_bytes 8 rnd))))]),
      test_store\<lparr>orders := AList.update (JStr ''507f1f77bcf86cd799439011'')
          (AList.update ''updatedAt'' (JStr stamp)
            (apply_update strict OrderSchema_paths
               [(''payment.method'', JStr ''payme''), (''payment.status'', JStr ''pending''),
                (''payment.intentId'', JStr (toString_hex (word_bytes 8 rnd)))] pending_order))
          (orders test_store)\<rparr>)"
    by (intro createPayme_writes) (simp_all add: or_empty_def test_store_def)
  then show ?thesis
    by (simp add: Let_def test_store_def create_update_other pending_order_def update_conv')
qed

theorem createPayme_leaves_schema_fields_witness:
  "(let r = createPayme True test_env 0x0123456789abcdef ''2025-01-01T10:00:00.005Z'' test_store
              (blank_request\<lparr>body := Some (JObj [(''orderId'', JStr ''507f1f77bcf86cd799439011''), (''amount'', JNum 1000)])\<rparr>)
    in status_of (fst r) = Some 200 \<and>
       map_option (\<lambda>d. (map_of d ''paymentMethod'', map_of d ''paymentStatus'', map_of d ''paymentIntentId''))
          (map_of (orders (snd r)) (JStr ''507f1f77bcf86cd799439011''))
        = Some (None, Some (JStr ''pending''), None))"
  by (rule createPayme_leaves_schema_fields)

lemma timeline_unknown_status:
  assumes "map_of d ''status'' = Some (JStr st)" and "st \<notin> set (tl stages)"
  shows "timeline d =
     Inr [obj [(''status'', Some (JStr ''pending'')),
               (''title'', Some (JStr ''Buyurtma qabul qilindi'')),
               (''description'', Some (JStr ''Sizning buyurtmangiz qabul qilingan'')),
               (''timestamp'', map_of d ''createdAt''),
               (''completed'', Some (JBool True))]]"
  using assms by (simp add: timeline_def stages_def Let_def)

lemma first_entry_status:
  "entry_statuses [obj [(''status'', Some (JStr ''pending'')), (''title'', Some a),
               (''description'', Some b), (''timestamp'', c), (''completed'', Some (JBool True))]]
   = [Some (JStr ''pending'')]"
  by (cases c) (simp_all add: entry_statuses_def obj_def)

text \<open>
  C10. After a webhook with a valid signature and a payload with \<open>intentId\<close> and
  \<open>orderId\<close> has settled a stored order, the order's \<open>status\<close> is the string
  \<open>paid\<close>, which is none of the seven values of the schema's status enum, and
  \<open>trackOrder\<close> of that order answers 200 with a timeline whose only entry is
  \<open>pending\<close>.
\<close>

theorem paymeWebhook_status_paid:
  assumes "verifySignature h (stringify (or_empty (body req))) (x_signature req) (PAYME_SECRET e) = Inr True"
    and "truthy (field (or_empty (body req)) ''intentId'')"
    and "field (or_empty (body req)) ''orderId'' = Some (JStr oid)" and "oid \<noteq> []"
    and "up s" and "map_of (orders s) (JStr oid) = Some d"
    and "map_of d ''totals'' = Some (JObj tot)" and "map_of d ''delivery'' = Some (JObj dl)"
    and "map_of (params rq) ''orderId'' = Some oid"
  shows "\<exists>d' entries resp.
           map_of (orders (snd (paymeWebhook h stringify strict e now stamp s req))) (JStr oid) = Some d' \<and>
           map_of d' ''status'' = Some (JStr ''paid'') \<and>
           ''paid'' \<notin> set OrderSchema_status_enum \<and>
           trackOrder (snd (paymeWebhook h stringify strict e now stamp s req)) rq = Responded 200 resp \<and>
           field resp ''timeline'' = Some (JArr entries) \<and>
           entry_statuses entries = [Some (JStr ''pending'')]"
proof -
  let ?d' = "AList.update ''updatedAt'' (JStr stamp)
               (apply_update strict OrderSchema_paths
                  [(''status'', JStr ''paid''), (''payment.status'', JStr ''paid''),
                   (''payment.paidAt'', JStr now)] d)"
  let ?s' = "s\<lparr>orders := AList.update (JStr oid) ?d' (orders s)\<rparr>"
  let ?entry = "obj [(''status'', Some (JStr ''pending'')),
               (''title'', Some (JStr ''Buyurtma qabul qilindi'')),
               (''description'', Some (JStr ''Sizning buyurtmangiz qabul qilingan'')),
               (''timestamp'', map_of ?d' ''createdAt''),
               (''completed'', Some (JBool True))]"
  have r: "snd (paymeWebhook h stringify strict e now stamp s req) = ?s'"
    using assms(1,2,3,4,5,6) by (subst paymeWebhook_settles [where i = "JStr oid" and d = d]) simp_all
  have st: "map_of ?d' ''status'' = Some (JStr ''paid'')"
    by (simp add: update_conv' webhook_update_status)
  have tot: "map_of ?d' ''totals'' = Some (JObj tot)"
    using assms(7) by (simp add: update_conv' webhook_update_other)
  have dl: "map_of ?d' ''delivery'' = Some (JObj dl)"
    using assms(8) by (simp add: update_conv' webhook_update_other)
  have tl: "timeline ?d' = Inr [?entry]"
    by (rule timeline_unknown_status [OF st]) (simp add: stages_def)
  have found: "map_of (orders ?s') (JStr oid) = Some ?d'"
    by (simp add: update_conv')
  define resp where "resp =
        obj [(''order'',
                Some (obj [(''id'', map_of ?d' ''id''), (''status'', map_of ?d' ''status''),
                           (''total'', map_of tot ''total''),
                           (''estimatedTime'', map_of dl ''estimatedTime'')])),
              (''timeline'', Some (JArr [?entry])),
              (''courier'',
                Some (if truthy (map_of dl ''courierId'')
                      then obj [(''name'', map_of dl ''courierName''),
                                (''phone'', map_of dl ''courierPhone'')]
                      else JNull))]"
  have t: "trackOrder ?s' rq = Responded 200 resp"
    using assms(5,9) tot dl tl find_by_id_stored [OF found]
    by (simp add: trackOrder_def Order_findById_def param_def resp_def)
  have f: "field resp ''timeline'' = Some (JArr [?entry])"
    by (simp add: resp_def obj_def)
  have es: "entry_statuses [?entry] = [Some (JStr ''pending'')]"
    by (rule first_entry_status)
  have paid: "''paid'' \<notin> set OrderSchema_status_enum"
    by (simp add: OrderSchema_status_enum_def)
  show ?thesis
    unfolding r using found st paid t f es by blast
qed

theorem paymeWebhook_status_paid_witness:
  "\<exists>d' entries resp.
     map_of (orders (snd (paymeWebhook (\<lambda>key msg. 0) (\<lambda>v. []) True test_env
                            ''2025-01-01T10:00:00.000Z'' ''2025-01-01T10:00:00.005Z'' test_store
                            (blank_request\<lparr>x_signature := Some (replicate 64 CHR ''0''),
                               body := Some test_payload\<rparr>)))) (JStr ''507f1f77bcf86cd799439011'') = Some d' \<and>
     map_of d' ''status'' = Some (JStr ''paid'') \<and>
     ''paid'' \<notin> set OrderSchema_status_enum \<and>
     trackOrder (snd (paymeWebhook (\<lambda>key msg. 0) (\<lambda>v. []) True test_env
                        ''2025-01-01T10:00:00.000Z'' ''2025-01-01T10:00:00.005Z'' test_store
                        (blank_request\<lparr>x_signature := Some (replicate 64 CHR ''0''),
                           body := Some test_payload\<rparr>)))
       (blank_request\<lparr>http_method := ''GET'', params := [(''orderId'', ''507f1f77bcf86cd799439011'')]\<rparr>) = Responded 200 resp \<and>
     field resp ''timeline'' = Some (JArr entries) \<and>
     entry_statuses entries = [Some (JStr ''pending'')]"
proof -
  have hex: "toString_hex (word_bytes 32 (0 :: 256 word)) = replicate 64 CHR ''0''"
    by code_simp
  have v: "verifySignature (\<lambda>key msg. 0) [] (Some (replicate 64 CHR ''0'')) (Some ''payme_secret'')
             = Inr True"
    using verifySignature_valid [of "''payme_secret''" "\<lambda>key msg. 0" "[]"] hex by simp
  show ?thesis
    by (rule paymeWebhook_status_paid
          [where tot = "[(''subtotal'', JNum 10), (''shipping'', JNum 0), (''tax'', JNum 0),
                         (''total'', JNum 10)]"
             and dl = "[(''address'', test_address)]" and d = pending_order])
       (simp_all add: v test_env_def or_empty_def
          test_payload_def test_store_def pending_order_def test_totals_def blank_request_def)
qed

section \<open>Order status updates\<close>

lemma updateOrderStatus_rejects:
  "\<not> js_includes okStatuses (field (or_empty (body req)) ''status'') \<Longrightarrow>
   updateOrderStatus strict stamp s req = (Responded 400 (JObj [(''message'', JStr ''Invalid status'')]), s)"
  by (simp add: updateOrderStatus_def Let_def)

lemma status_update:
  "map_of (apply_update strict OrderSchema_paths [(''status'', a)] d) k
     = (if k = ''status'' then Some a else map_of d k)"
  by (cases strict) (simp_all add: apply_update_def OrderSchema_paths_def update_conv')

lemma test_store_order:
  "find_by_id (orders test_store) (Some (JStr ''507f1f77bcf86cd799439011''))
     = Inr (Some (JStr ''507f1f77bcf86cd799439011'', pending_order))"
  by (rule find_by_id_stored) (simp add: test_store_def)

text \<open>
  C1. The list the handler checks the status against is not the schema's enum:
  \<open>confirmed\<close> is a value of the enum, and a request with it is answered 400 with
  the store unchanged (so are \<open>preparing\<close> and \<open>ready_for_delivery\<close>);
  \<open>processing\<close> is no value of the enum, and a request with it for a stored order is
  answered 200 and stored as the order's status.
\<close>

theorem updateOrderStatus_list_is_not_the_enum:
  "''confirmed'' \<in> set OrderSchema_status_enum \<and>
   updateOrderStatus strict stamp s
     (blank_request\<lparr>http_method := ''PATCH'', params := [(''orderId'', ''507f1f77bcf86cd799439011'')],
        body := Some (JObj [(''status'', JStr ''confirmed'')])\<rparr>)
     = (Responded 400 (JObj [(''message'', JStr ''Invalid status'')]), s) \<and>
   ''processing'' \<notin> set OrderSchema_status_enum \<and>
   (let r = updateOrderStatus strict stamp test_store
              (blank_request\<lparr>http_method := ''PATCH'', params := [(''orderId'', ''507f1f77bcf86cd799439011'')],
                 body := Some (JObj [(''status'', JStr ''processing'')])\<rparr>)
    in status_of (fst r) = Some 200 \<and>
       map_option (\<lambda>d. map_of d ''status'') (map_of (orders (snd r)) (JStr ''507f1f77bcf86cd799439011''))
         = Some (Some (JStr ''processing'')))"
proof -
  have a: "''confirmed'' \<in> set OrderSchema_status_enum" "''processing'' \<notin> set OrderSchema_status_enum"
    by (simp_all add: OrderSchema_status_enum_def)
  have b: "updateOrderStatus strict stamp s
     (blank_request\<lparr>http_method := ''PATCH'', params := [(''orderId'', ''507f1f77bcf86cd799439011'')],
        body := Some (JObj [(''status'', JStr ''confirmed'')])\<rparr>)
     = (Responded 400 (JObj [(''message'', JStr ''Invalid status'')]), s)"
    by (rule updateOrderStatus_rejects) (simp add: or_empty_def okStatuses_def)
  have c: "(let r = updateOrderStatus strict stamp test_store
              (blank_request\<lparr>http_method := ''PATCH'', params := [(''orderId'', ''507f1f77bcf86cd799439011'')],
                 body := Some (JObj [(''status'', JStr ''processing'')])\<rparr>)
    in status_of (fst r) = Some 200 \<and>
       map_option (\<lambda>d. map_of d ''status'') (map_of (orders (snd r)) (JStr ''507f1f77bcf86cd799439011''))
         = Some (Some (JStr ''processing'')))"
    using test_store_order
    by (simp add: updateOrderStatus_def Let_def or_empty_def okStatuses_def param_def
        Order_findByIdAndUpdate_def Order_toJSON_def status_update update_conv')
       (simp add: test_store_def pending_order_def status_update update_conv')
  show ?thesis using a b c by blast
qed

theorem updateOrderStatus_list_is_not_the_enum_witness:
  "updateOrderStatus True ''2025-01-01T10:00:00.005Z'' test_store
     (blank_request\<lparr>http_method := ''PATCH'', params := [(''orderId'', ''507f1f77bcf86cd799439011'')],
        body := Some (JObj [(''status'', JStr ''confirmed'')])\<rparr>)
     = (Responded 400 (JObj [(''message'', JStr ''Invalid status'')]), test_store)"
  using updateOrderStatus_list_is_not_the_enum [of True "''2025-01-01T10:00:00.005Z''" test_store]
  by blast

section \<open>The two authentication middlewares\<close>

lemma requireAuth_passes:
  assumes "tok \<noteq> []"
    and "jwt_verify tok (case JWT_SECRET e of Some k \<Rightarrow> (if k \<noteq> [] then k else ''dev_secret_change_me'')
                          | None \<Rightarrow> ''dev_secret_change_me'') = Some decoded"
    and "authorization req = Some (''Bearer '' @ tok)"
  shows "requireAuth jwt_verify e req = Pass (req\<lparr>user := Some decoded\<rparr>)"
  using assms by (simp add: requireAuth_def Let_def)

lemma authenticateToken_pass_active:
  assumes "authenticateToken jwt_verify e s req = Pass req'"
  shows "\<exists>i u. map_of (users s) i = Some u \<and> truthy (map_of u ''isActive'')"
  using assms
  by (auto simp: authenticateToken_def Let_def find_by_id_def
      split: option.splits if_splits sum.splits)

text \<open>
  C4. \<open>requireAuth\<close> takes no store: a token that verifies passes it, with the token's
  payload as \<open>req.user\<close>, whatever has become of the account. For the first account,
  deactivated in the store (or deleted from it), the request passes \<open>requireAuth\<close>,
  while \<open>authenticateToken\<close> answers the same request 401.
\<close>

theorem requireAuth_passes_deactivated:
  "requireAuth test_verify e (blank_request\<lparr>authorization := Some ''Bearer t1''\<rparr>)
     = Pass (blank_request\<lparr>authorization := Some ''Bearer t1'',
               user := Some (JObj [(''id'', JStr ''64b0c0ffee0000000000a001''), (''role'', JStr ''admin'')])\<rparr>) \<and>
   authenticateToken test_verify e users_store (blank_request\<lparr>authorization := Some ''Bearer t1''\<rparr>)
     = Halt 401 (JObj [(''message'', JStr ''Invalid or inactive user'')]) \<and>
   authenticateToken test_verify e (users_store\<lparr>users := []\<rparr>)
       (blank_request\<lparr>authorization := Some ''Bearer t1''\<rparr>)
     = Halt 401 (JObj [(''message'', JStr ''Invalid or inactive user'')])"
proof -
  have sp: "split_on CHR '' '' ''Bearer t1'' = [''Bearer'', ''t1'']"
    by simp
  have a: "requireAuth test_verify e (blank_request\<lparr>authorization := Some ''Bearer t1''\<rparr>)
     = Pass (blank_request\<lparr>authorization := Some ''Bearer t1'',
               user := Some (JObj [(''id'', JStr ''64b0c0ffee0000000000a001''), (''role'', JStr ''admin'')])\<rparr>)"
    by (simp add: requireAuth_def Let_def test_verify_def)
  have b: "authenticateToken test_verify e users_store
             (blank_request\<lparr>authorization := Some ''Bearer t1''\<rparr>)
     = Halt 401 (JObj [(''message'', JStr ''Invalid or inactive user'')])"
    by (simp add: authenticateToken_def Let_def sp test_verify_def users_store_def test_users_def
        find_by_id_def is_hex_digit_def del: split_on.simps)
  have c: "authenticateToken test_verify e (users_store\<lparr>users := []\<rparr>)
       (blank_request\<lparr>authorization := Some ''Bearer t1''\<rparr>)
     = Halt 401 (JObj [(''message'', JStr ''Invalid or inactive user'')])"
    by (simp add: authenticateToken_def Let_def sp test_verify_def users_store_def test_users_def
        find_by_id_def is_hex_digit_def del: split_on.simps)
  show ?thesis using a b c by blast
qed

theorem requireAuth_passes_deactivated_witness:
  "requireAuth test_verify test_env (blank_request\<lparr>authorization := Some ''Bearer t1''\<rparr>)
     = Pass (blank_request\<lparr>authorization := Some ''Bearer t1'',
               user := Some (JObj [(''id'', JStr ''64b0c0ffee0000000000a001''), (''role'', JStr ''admin'')])\<rparr>)"
  using requireAuth_passes_deactivated [of test_env] by simp

section \<open>The tracking timeline\<close>

lemma timeline_of_status:
  assumes "map_of d ''status'' = Some (JStr st)" and "st \<in> set OrderSchema_status_enum"
    and "map_of d ''delivery'' = Some (JObj dl)"
  shows "\<exists>entries. timeline d = Inr entries \<and> all_completed entries \<and>
           entry_statuses entries =
             map (\<lambda>x. Some (JStr x))
               (if st = ''cancelled'' then [''pending''] else takeWhile (\<lambda>x. x \<noteq> st) stages @ [st])"
proof -
  have "st = ''pending'' \<or> st = ''confirmed'' \<or> st = ''preparing'' \<or> st = ''ready_for_delivery''
      \<or> st = ''in_transit'' \<or> st = ''delivered'' \<or> st = ''cancelled''"
    using assms(2) unfolding OrderSchema_status_enum_def by (simp only: set_simps insert_iff empty_iff simp_thms)
  then consider "st = ''pending''" | "st = ''confirmed''" | "st = ''preparing''"
    | "st = ''ready_for_delivery''" | "st = ''in_transit''" | "st = ''delivered''" | "st = ''cancelled''"
    by metis
  then show ?thesis
  proof cases
    case 1
    with assms(1,3) show ?thesis
      by (cases "map_of d ''createdAt''")
         (simp_all add: timeline_def Let_def stages_def entry_statuses_def all_completed_def obj_def
            stage_entry_def)
  next
    case 2
    with assms(1,3) show ?thesis
      by (cases "map_of d ''createdAt''")
         (simp_all add: timeline_def Let_def stages_def entry_statuses_def all_completed_def obj_def
            stage_entry_def)
  next
    case 3
    with assms(1,3) show ?thesis
      by (cases "map_of d ''createdAt''")
         (simp_all add: timeline_def Let_def stages_def entry_statuses_def all_completed_def obj_def
            stage_entry_def)
  next
    case 4
    with assms(1,3) show ?thesis
      by (cases "map_of d ''createdAt''")
         (simp_all add: timeline_def Let_def stages_def entry_statuses_def all_completed_def obj_def
            stage_entry_def)
  next
    case 5
    with assms(1,3) show ?thesis
      by (cases "map_of d ''createdAt''")
         (simp_all add: timeline_def Let_def stages_def entry_statuses_def all_completed_def obj_def
            stage_entry_def)
  next
    case 6
    with assms(1,3) show ?thesis
      by (cases "map_of d ''createdAt''")
         (simp_all add: timeline_def Let_def stages_def entry_statuses_def all_completed_def obj_def
            stage_entry_def)
  next
    case 7
    with assms(1,3) show ?thesis
      by (cases "map_of d ''createdAt''")
         (simp_all add: timeline_def Let_def stages_def entry_statuses_def all_completed_def obj_def
            stage_entry_def)
  qed
qed

text \<open>
  C8. For a stored order (with the totals and the delivery the schema requires) whose
  status is one of the enum's values, \<open>trackOrder\<close> answers 200 with a timeline whose
  entries are all completed and are, in order, the stages up to and including the
  status; for a cancelled order the timeline is the single entry \<open>pending\<close>, the stage
  every order is created in, and no later stage.
\<close>

theorem trackOrder_timeline:
  assumes "up s" and "map_of (params rq) ''orderId'' = Some oid"
    and "map_of (orders s) (JStr oid) = Some d"
    and "map_of d ''totals'' = Some (JObj tot)" and "map_of d ''delivery'' = Some (JObj dl)"
    and "map_of d ''status'' = Some (JStr st)" and "st \<in> set OrderSchema_status_enum"
  shows "\<exists>resp entries.
           trackOrder s rq = Responded 200 resp \<and>
           field resp ''timeline'' = Some (JArr entries) \<and>
           all_completed entries \<and>
           entry_statuses entries =
             map (\<lambda>x. Some (JStr x))
               (if st = ''cancelled'' then [''pending''] else takeWhile (\<lambda>x. x \<noteq> st) stages @ [st])"
proof -
  obtain entries where e: "timeline d = Inr entries" "all_completed entries"
      "entry_statuses entries =
             map (\<lambda>x. Some (JStr x))
               (if st = ''cancelled'' then [''pending''] else takeWhile (\<lambda>x. x \<noteq> st) stages @ [st])"
    using timeline_of_status [OF assms(6,7,5)] by blast
  define resp where "resp =
        obj [(''order'',
                Some (obj [(''id'', map_of d ''id''), (''status'', map_of d ''status''),
                           (''total'', map_of tot ''total''),
                           (''estimatedTime'', map_of dl ''estimatedTime'')])),
              (''timeline'', Some (JArr entries)),
              (''courier'',
                Some (if truthy (map_of dl ''courierId'')
                      then obj [(''name'', map_of dl ''courierName''),
                                (''phone'', map_of dl ''courierPhone'')]
                      else JNull))]"
  have t: "trackOrder s rq = Responded 200 resp"
    using assms(1,2,4,5) e(1) find_by_id_stored [OF assms(3)]
    by (simp add: trackOrder_def Order_findById_def param_def resp_def)
  have f: "field resp ''timeline'' = Some (JArr entries)"
    by (simp add: resp_def obj_def)
  show ?thesis using t f e(2,3) by blast
qed

theorem trackOrder_timeline_witness:
  "\<exists>resp entries.
     trackOrder delivery_store
       (blank_request\<lparr>http_method := ''GET'', params := [(''orderId'', ''507f1f77bcf86cd799439012'')]\<rparr>) = Responded 200 resp \<and>
     field resp ''timeline'' = Some (JArr entries) \<and>
     all_completed entries \<and>
     entry_statuses entries =
       [Some (JStr ''pending''), Some (JStr ''confirmed''), Some (JStr ''preparing''),
        Some (JStr ''ready_for_delivery''), Some (JStr ''in_transit'')]"
  using trackOrder_timeline
    [of delivery_store "blank_request\<lparr>http_method := ''GET'', params := [(''orderId'', ''507f1f77bcf86cd799439012'')]\<rparr>"
        "''507f1f77bcf86cd799439012''" transit_order
        "[(''subtotal'', JNum 10), (''shipping'', JNum 0), (''tax'', JNum 0), (''total'', JNum 10)]"
        "[(''address'', test_address), (''estimatedTime'', JNum 45), (''courierId'', JStr ''c1''),
          (''courierName'', JStr ''Ali''), (''courierPhone'', JStr ''+998900000001'')]"
        "''in_transit''"]
  by (simp add: delivery_store_def transit_order_def test_totals_def OrderSchema_status_enum_def
      stages_def)

section \<open>Guards on administrator accounts\<close>

lemma access_defined: "v \<noteq> JNull \<Longrightarrow> access (Some v) k = Inr (field v k)"
  by (cases v) simp_all


lemma truthy_field_not_null: "truthy (field v k) \<Longrightarrow> v \<noteq> JNull"
  by (cases v) simp_all









section \<open>Order creation\<close>

lemma createOrder_no_user:
  "user req = None \<or> user req = Some JNull \<Longrightarrow>
   createOrder create s req = (Responded 500 server_error, s)"
  by (auto simp: createOrder_def)

lemma createOrder_missing:
  assumes "user req = Some u" and "u \<noteq> JNull"
    and "\<not> truthy (field (or_empty (body req)) ''items'') \<or>
         \<not> truthy (field (or_empty (body req)) ''totals'') \<or>
         \<not> truthy (field (or_empty (body req)) ''address'')"
  shows "createOrder create s req =
           (Responded 400 (JObj [(''message'', JStr ''items, totals, address required'')]), s)"
  using assms by (auto simp: createOrder_def Let_def access_defined)

lemma createOrder_present:
  assumes "user req = Some u" and "u \<noteq> JNull"
    and "truthy (field (or_empty (body req)) ''items'')"
    and "truthy (field (or_empty (body req)) ''totals'')"
    and "truthy (field (or_empty (body req)) ''address'')"
  shows "createOrder create s req =
           (case create s (present [(''userId'', field u ''id''),
                                    (''items'', field (or_empty (body req)) ''items''),
                                    (''totals'', field (or_empty (body req)) ''totals''),
                                    (''address'', field (or_empty (body req)) ''address'')]) of
              Inl x \<Rightarrow> (Responded 500 server_error, s)
            | Inr (i, d, s') \<Rightarrow>
                (case Order_toJSON i d of
                   Inl x \<Rightarrow> (Responded 500 server_error, s')
                 | Inr j \<Rightarrow> (Responded 201 j, s')))"
  using assms by (simp add: createOrder_def Let_def access_defined)

text \<open>
  The only 400 of \<open>createOrder\<close> is its presence guard, whatever \<open>create\<close> does: the
  answer is 400 exactly when the request has a user and \<open>items\<close>, \<open>totals\<close> or
  \<open>address\<close> is missing or falsy.
\<close>

lemma createOrder_400_iff:
  "status_of (fst (createOrder create s req)) = Some 400 \<longleftrightarrow>
      (\<exists>u. user req = Some u \<and> u \<noteq> JNull) \<and>
      (\<not> truthy (field (or_empty (body req)) ''items'') \<or>
       \<not> truthy (field (or_empty (body req)) ''totals'') \<or>
       \<not> truthy (field (or_empty (body req)) ''address''))"
proof (cases "user req = None \<or> user req = Some JNull")
  case True
  then show ?thesis
    by (auto simp: createOrder_no_user)
next
  case False
  then obtain u0 where u0: "user req = Some u0" "u0 \<noteq> JNull" by auto
  show ?thesis
  proof (cases "truthy (field (or_empty (body req)) ''items'') \<and>
                truthy (field (or_empty (body req)) ''totals'') \<and>
                truthy (field (or_empty (body req)) ''address'')")
    case True
    then show ?thesis
      using u0 by (simp add: createOrder_present [OF u0] split: sum.splits prod.splits)
  next
    case False
    then have "createOrder create s req =
         (Responded 400 (JObj [(''message'', JStr ''items, totals, address required'')]), s)"
      by (intro createOrder_missing [OF u0]) blast
    with False u0 show ?thesis by auto
  qed
qed

text \<open>
  The document \<open>createOrder\<close> hands to \<open>Order.create\<close> never has a \<open>delivery\<close>, which
  the schema requires: \<open>Order.create\<close> refuses it.
\<close>

lemma present_order_no_delivery:
  "map_of (present [(''userId'', a), (''items'', b), (''totals'', c), (''address'', e)])
     ''delivery'' = None"
  by (cases a; cases b; cases c; cases e) simp_all

lemma Order_create_needs_delivery:
  "map_of d ''delivery'' = None \<Longrightarrow> Order_create accepts new_id now s d = Inl ValidationError"
  by (simp add: Order_create_def OrderSchema_required_def required_path_def)

lemma createOrder_never_creates:
  "createOrder (Order_create accepts new_id now) s req = (Responded 500 server_error, s) \<or>
   createOrder (Order_create accepts new_id now) s req =
     (Responded 400 (JObj [(''message'', JStr ''items, totals, address required'')]), s)"
  by (simp add: createOrder_def Let_def Order_create_needs_delivery present_order_no_delivery
      split: sum.splits)

text \<open>
  C5. With \<open>Order.create\<close> as \<open>OrderSchema\<close> makes it, whatever the rest of its
  validation accepts, \<open>createOrder\<close> never answers 201 and never stores an order: the
  request of Scenario A is answered 500 and the store is unchanged, where the claim has
  201 with the created order. An empty \<open>items\<close> array and an item of quantity 0 are
  answered 500 as well, where the claim has 400.
\<close>

theorem createOrder_scenario_A_fails:
  "status_of (fst (createOrder (Order_create accepts new_id now) s req)) \<noteq> Some 201 \<and>
   snd (createOrder (Order_create accepts new_id now) s req) = s \<and>
   createOrder (Order_create accepts new_id now) s scenario_A = (Responded 500 server_error, s) \<and>
   createOrder (Order_create accepts new_id now) s
       (scenario_A\<lparr>body := Some (JObj [(''items'', JArr []), (''totals'', test_totals),
                                        (''address'', test_address)])\<rparr>)
     = (Responded 500 server_error, s) \<and>
   createOrder (Order_create accepts new_id now) s
       (scenario_A\<lparr>body := Some (JObj [(''items'',
                                JArr [JObj [(''productId'', JStr ''p1''), (''title'', JStr ''Tee''),
                                            (''slug'', JStr ''tee''), (''price'', JNum 10),
                                            (''qty'', JNum 0), (''image'', JStr ''img'')]]),
                              (''totals'', test_totals), (''address'', test_address)])\<rparr>)
     = (Responded 500 server_error, s)"
proof -
  let ?c = "Order_create accepts new_id now"
  have n: "createOrder ?c s r = (Responded 500 server_error, s) \<or>
           createOrder ?c s r =
             (Responded 400 (JObj [(''message'', JStr ''items, totals, address required'')]), s)" for r
    by (rule createOrder_never_creates)
  have 1: "status_of (fst (createOrder ?c s req)) \<noteq> Some 201"
    using n [of req] by auto
  have 2: "snd (createOrder ?c s req) = s"
    using n [of req] by auto
  have 3: "createOrder ?c s scenario_A = (Responded 500 server_error, s)"
    using n [of scenario_A] createOrder_400_iff [of ?c s scenario_A]
    by (auto simp: scenario_A_def or_empty_def test_items_def test_totals_def test_address_def)
  let ?r4 = "scenario_A\<lparr>body := Some (JObj [(''items'', JArr []), (''totals'', test_totals),
                                        (''address'', test_address)])\<rparr>"
  have 4: "createOrder ?c s ?r4 = (Responded 500 server_error, s)"
    using n [of ?r4] createOrder_400_iff [of ?c s ?r4]
    by (auto simp: scenario_A_def or_empty_def test_totals_def test_address_def)
  let ?r5 = "scenario_A\<lparr>body := Some (JObj [(''items'',
                                JArr [JObj [(''productId'', JStr ''p1''), (''title'', JStr ''Tee''),
                                            (''slug'', JStr ''tee''), (''price'', JNum 10),
                                            (''qty'', JNum 0), (''image'', JStr ''img'')]]),
                              (''totals'', test_totals), (''address'', test_address)])\<rparr>"
  have 5: "createOrder ?c s ?r5 = (Responded 500 server_error, s)"
    using n [of ?r5] createOrder_400_iff [of ?c s ?r5]
    by (auto simp: scenario_A_def or_empty_def test_totals_def test_address_def)
  show ?thesis using 1 2 3 4 5 by blast
qed

theorem createOrder_scenario_A_fails_witness:
  "createOrder (Order_create (\<lambda>d. True) (JStr ''507f1f77bcf86cd799439013'')
                  ''2025-01-01T10:00:00.000Z'') test_store scenario_A
     = (Responded 500 server_error, test_store)"
  using createOrder_scenario_A_fails
    [of "\<lambda>d. True" "JStr ''507f1f77bcf86cd799439013''" "''2025-01-01T10:00:00.000Z''" test_store
        scenario_A]
  by simp

section \<open>The audit entry\<close>









end
